theory Spec2Isabelle
  imports Main "HOL-Library.Word"
begin

section \<open>The detail file reader of proto\_detail\_file.c\<close>

text \<open>
  A shallow embedding of \<^verbatim>\<open>mod_read\<close> and \<^verbatim>\<open>mod_write\<close> of
  \<^verbatim>\<open>src/modules/proto_detail/proto_detail_file.c\<close>.  Pointers into the caller's buffer
  (\<^verbatim>\<open>partial\<close>, \<^verbatim>\<open>end\<close>, \<^verbatim>\<open>next\<close>, \<^verbatim>\<open>p\<close>) are indices into a byte list
  whose length is \<^verbatim>\<open>buffer_len\<close>; \<^verbatim>\<open>off_t\<close>, \<^verbatim>\<open>ssize_t\<close> and \<^verbatim>\<open>int\<close> are
  \<open>int\<close> (no claim depends on their overflow).
\<close>

type_synonym byte = "8 word"

subsection \<open>The file descriptor\<close>

text \<open>
  The operating system's side of \<^verbatim>\<open>inst->fd\<close>: a regular file with its contents, its
  cursor and the largest offset its file system supports.  A descriptor that is not
  valid (closed by \<^verbatim>\<open>mod_detach\<close>) fails every call with -1.
\<close>

record file_t =
  fd_valid :: bool
  contents :: "byte list"
  cursor :: int
  maxbytes :: int

datatype whence = SEEK_SET | SEEK_CUR

text \<open>
  \<^verbatim>\<open>lseek(fd, off, whence)\<close>: a position below 0 or beyond the file system's limit is
  refused with -1 and the cursor stays where it was.
\<close>

definition lseek :: "file_t \<Rightarrow> int \<Rightarrow> whence \<Rightarrow> int \<times> file_t" where
  "lseek f off wh =
     (let pos = (case wh of SEEK_SET \<Rightarrow> off | SEEK_CUR \<Rightarrow> cursor f + off)
      in if \<not> fd_valid f \<or> pos < 0 \<or> maxbytes f < pos then (- 1, f)
         else (pos, f\<lparr>cursor := pos\<rparr>))"

text \<open>\<^verbatim>\<open>read(fd, buf, room)\<close>: the bytes from the cursor on, at most \<open>room\<close> of them.\<close>

definition read_fd :: "file_t \<Rightarrow> nat \<Rightarrow> int \<times> byte list \<times> file_t" where
  "read_fd f room =
     (if \<not> fd_valid f then (- 1, [], f)
      else let d = take room (drop (nat (cursor f)) (contents f))
           in (int (length d), d, f\<lparr>cursor := cursor f + int (length d)\<rparr>))"

text \<open>
  \<^verbatim>\<open>write(fd, data, n)\<close> at the cursor: bytes in place are overwritten, a gap past the end
  of the file is filled with zeros.  At or beyond the file system's limit the write is
  refused with -1; a write that would cross the limit is cut short at it.
\<close>

definition write_fd :: "file_t \<Rightarrow> byte list \<Rightarrow> int \<times> file_t" where
  "write_fd f d =
     (if \<not> fd_valid f \<or> maxbytes f \<le> cursor f then (- 1, f)
      else let c = nat (cursor f); old = contents f;
               w = (if cursor f + int (length d) \<le> maxbytes f then d
                    else take (nat (maxbytes f - cursor f)) d)
           in (int (length w),
               f\<lparr>contents := take c old @ replicate (c - length old) 0 @ w @ drop (c + length w) old,
                 cursor := cursor f + int (length w)\<rparr>))"

subsection \<open>Data of the module\<close>

text \<open>\<^verbatim>\<open>fr_detail_entry_t\<close>, the tracking entry of one record.\<close>

record fr_detail_entry_t =
  timestamp :: int
  done_offset :: int

text \<open>
  \<^verbatim>\<open>proto_detail_file_t\<close>, the fields that \<^verbatim>\<open>mod_read\<close> and \<^verbatim>\<open>mod_write\<close> use.
  \<open>max_packet_size\<close> is \<^verbatim>\<open>inst->parent->max_packet_size\<close>.
\<close>

record proto_detail_file_t =
  fd :: file_t
  eof :: bool
  closing :: bool
  outstanding :: int
  file_size :: int
  header_offset :: int
  read_offset :: int
  max_packet_size :: nat

text \<open>
  What a call can end in other than a return value of at least 0: the C return of -1,
  a failed \<^verbatim>\<open>rad_assert\<close> (the assertions are compiled in and abort the call), and a
  read of \<^verbatim>\<open>priorities\<close> outside the table, which C leaves undefined.
\<close>

datatype error = Fatal | Assert_failed | Out_of_bounds

text \<open>A C string literal as bytes (without the terminating NUL).\<close>

definition c_str :: "string \<Rightarrow> byte list" where
  "c_str s = map (\<lambda>c. of_nat (of_char c)) s"

text \<open>\<^verbatim>\<open>memcmp(p, s, n) == 0\<close> on the buffer.\<close>

definition memcmp_eq :: "byte list \<Rightarrow> nat \<Rightarrow> byte list \<Rightarrow> nat \<Rightarrow> bool" where
  "memcmp_eq buf p s n = (take n (drop p buf) = take n s)"

text \<open>\<^verbatim>\<open>memmove(buffer, next, n)\<close>: the \<open>n\<close> bytes at \<open>next\<close> move to the front.\<close>

definition memmove_front :: "byte list \<Rightarrow> nat \<Rightarrow> nat \<Rightarrow> byte list" where
  "memmove_front buf nxt n = take n (drop nxt buf) @ drop n buf"

subsection \<open>mod\_write\<close>

record mod_write_out =
  w_ret :: int
  w_inst :: proto_detail_file_t

text \<open>
  Lines 324 to 358.  The results of the two seeks and of the write are cast to
  \<^verbatim>\<open>void\<close>; \<^verbatim>\<open>talloc_free(track)\<close> releases the entry.
\<close>

definition mod_write ::
  "proto_detail_file_t \<Rightarrow> fr_detail_entry_t \<Rightarrow> byte list \<Rightarrow> error + mod_write_out" where
  "mod_write inst track buffer =
     (if length buffer < 1 then Inl Fatal
      else if \<not> (outstanding inst > 0) then Inl Assert_failed
      else
        let inst = inst\<lparr>outstanding := outstanding inst - 1\<rparr>;
            inst =
              (if buffer ! 0 = 0 then inst
               else if done_offset track > 0 then
                 let f1 = snd (lseek (fd inst) (done_offset track) SEEK_SET);
                     f2 = snd (write_fd f1 (c_str ''Done''));
                     f3 = snd (lseek f2 (read_offset inst) SEEK_SET)
                 in inst\<lparr>fd := f3\<rparr>
               else inst)
        in Inr \<lparr>w_ret = int (length buffer), w_inst = inst\<rparr>)"

subsection \<open>The priority table\<close>

text \<open>
  The packet codes, \<^verbatim>\<open>FR_MAX_PACKET_CODE\<close> and the priority levels come from headers
  that are not part of this file; they are parameters of the model.
\<close>

record radius_h =
  FR_MAX_PACKET_CODE :: nat
  FR_CODE_ACCESS_REQUEST :: nat
  FR_CODE_ACCOUNTING_REQUEST :: nat
  FR_CODE_COA_REQUEST :: nat
  FR_CODE_DISCONNECT_REQUEST :: nat
  FR_CODE_STATUS_SERVER :: nat
  PRIORITY_NOW :: "32 word"
  PRIORITY_HIGH :: "32 word"
  PRIORITY_NORMAL :: "32 word"
  PRIORITY_LOW :: "32 word"

text \<open>
  Lines 96 to 102: \<^verbatim>\<open>static uint32_t priorities[FR_MAX_PACKET_CODE]\<close> with five designated
  initialisers, every other entry zero.
\<close>

definition priorities :: "radius_h \<Rightarrow> 32 word list" where
  "priorities h =
     (replicate (FR_MAX_PACKET_CODE h) 0)
       [FR_CODE_ACCESS_REQUEST h := PRIORITY_HIGH h,
        FR_CODE_ACCOUNTING_REQUEST h := PRIORITY_LOW h,
        FR_CODE_COA_REQUEST h := PRIORITY_NORMAL h,
        FR_CODE_DISCONNECT_REQUEST h := PRIORITY_NORMAL h,
        FR_CODE_STATUS_SERVER h := PRIORITY_NOW h]"

subsection \<open>mod\_read\<close>

text \<open>
  What a returning call leaves behind: the return value, the instance, the buffer,
  \<^verbatim>\<open>*leftover\<close>, and \<^verbatim>\<open>*packet_ctx\<close> and \<^verbatim>\<open>*priority\<close>, which are \<open>None\<close> when the call
  did not assign them.
\<close>

record mod_read_out =
  r_ret :: int
  r_inst :: proto_detail_file_t
  r_buffer :: "byte list"
  r_leftover :: nat
  r_packet_ctx :: "fr_detail_entry_t option"
  r_priority :: "32 word option"

text \<open>
  Lines 136 to 164: fill the buffer behind the leftover bytes.  The result is the
  instance, the buffer and \<^verbatim>\<open>end\<close>.
\<close>

definition fill ::
  "proto_detail_file_t \<Rightarrow> byte list \<Rightarrow> nat \<Rightarrow> error + (proto_detail_file_t \<times> byte list \<times> nat)" where
  "fill inst buffer leftover =
     (if \<not> eof inst then
        let room = length buffer - leftover;
            (data_size, data, f1) = read_fd (fd inst) room
        in if data_size < 0 then Inl Fatal
           else
             let (off, f2) = lseek f1 0 SEEK_CUR;
                 inst = inst\<lparr>fd := f2, read_offset := off,
                             eof := (data_size = 0 \<or> off = file_size inst)\<rparr>
             in Inr (inst,
                     take leftover buffer @ data @ drop (leftover + length data) buffer,
                     leftover + nat data_size)
      else if \<not> (leftover > 0) then Inl Assert_failed
      else Inr (inst, buffer, leftover))"

text \<open>Lines 183 to 191: the search for the end of record marker, giving \<^verbatim>\<open>next\<close>.\<close>

function find_next :: "byte list \<Rightarrow> nat \<Rightarrow> nat \<Rightarrow> nat option" where
  "find_next buf p endp =
     (if p < endp then
        if buf ! p \<noteq> 10 then find_next buf (p + 1) endp
        else if p + 1 = endp then None
        else if buf ! (p + 1) = 10 then Some (p + 2)
        else find_next buf (p + 1) endp
      else None)"
  by pat_completeness auto
termination
  by (relation "measure (\<lambda>(buf, p, endp). endp - p)") auto

text \<open>
  Lines 269 to 283: the search for the two tags.  \<open>Skip_record\<close> is the jump to
  \<^verbatim>\<open>skip_record\<close>, \<open>Tracked d\<close> the end of the loop with \<^verbatim>\<open>track->done_offset\<close> at \<open>d\<close>.
\<close>

datatype tag_result = Skip_record | Tracked int

function find_tags :: "byte list \<Rightarrow> nat \<Rightarrow> nat \<Rightarrow> int \<Rightarrow> int \<Rightarrow> tag_result" where
  "find_tags buf p endp hdr d =
     (if p < endp then
        if buf ! p \<noteq> 10 then find_tags buf (p + 1) endp hdr d
        else if endp - p \<ge> 5 \<and> memcmp_eq buf p (c_str (CHR 0x09 # ''Done'')) 5 then Skip_record
        else if endp - p > 10 \<and> memcmp_eq buf p (c_str (CHR 0x09 # ''Timestamp'')) 10
          then find_tags buf (p + 2 + 1) endp hdr (hdr + int (p + 2))
        else find_tags buf (p + 1) endp hdr d
      else Tracked d)"
  by pat_completeness auto
termination
  by (relation "measure (\<lambda>(buf, p, endp, hdr, d). endp - p)") auto

text \<open>
  Lines 305 to 321, the label \<^verbatim>\<open>done\<close>: the step back at EOF, the count of outstanding
  records and the return of \<^verbatim>\<open>packet_len\<close>.
\<close>

definition at_done ::
  "proto_detail_file_t \<Rightarrow> byte list \<Rightarrow> nat \<Rightarrow> nat \<Rightarrow> fr_detail_entry_t option \<Rightarrow>
     32 word option \<Rightarrow> error + mod_read_out" where
  "at_done inst buf leftover packet_len ctx prio =
     (if eof inst then
        let hack = read_offset inst - 1;
            (off, f) = lseek (fd inst) hack SEEK_SET;
            inst = inst\<lparr>read_offset := off, fd := f\<rparr>
        in if closing inst then Inl Assert_failed
           else
             let inst = inst\<lparr>closing := (leftover = 0)\<rparr>
             in Inr \<lparr>r_ret = int packet_len, r_inst = inst\<lparr>outstanding := outstanding inst + 1\<rparr>,
                     r_buffer = buf, r_leftover = leftover, r_packet_ctx = ctx, r_priority = prio\<rparr>
      else Inr \<lparr>r_ret = int packet_len, r_inst = inst\<lparr>outstanding := outstanding inst + 1\<rparr>,
                r_buffer = buf, r_leftover = leftover, r_packet_ctx = ctx, r_priority = prio\<rparr>)"

text \<open>
  Lines 288 to 292 and on to \<^verbatim>\<open>done\<close>: the record is handed out.  \<^verbatim>\<open>buffer[0]\<close> indexes
  the table unchecked.
\<close>

definition accept ::
  "radius_h \<Rightarrow> proto_detail_file_t \<Rightarrow> byte list \<Rightarrow> nat \<Rightarrow> nat \<Rightarrow> fr_detail_entry_t \<Rightarrow>
     error + mod_read_out" where
  "accept h inst buf leftover packet_len track =
     (let inst = inst\<lparr>header_offset := header_offset inst + int packet_len\<rparr>
      in if unat (buf ! 0) < length (priorities h)
         then at_done inst buf leftover packet_len (Some track) (Some (priorities h ! unat (buf ! 0)))
         else Inl Out_of_bounds)"

text \<open>A delimiter that is found lies inside the searched region.\<close>

lemma find_next_bounds: "find_next buf p endp = Some n \<Longrightarrow> p + 2 \<le> n \<and> n \<le> endp"
  by (induction buf p endp rule: find_next.induct)
    (subst (asm) (2) find_next.simps, auto split: if_splits)

text \<open>
  Lines 166 to 292, from the label \<^verbatim>\<open>redo\<close> on.  Each \<^verbatim>\<open>goto redo\<close> is a recursive
  call; \<open>found\<close> is the pair of \<^verbatim>\<open>packet_len\<close> and \<^verbatim>\<open>*leftover\<close> of lines 197 to 224, or
  \<open>None\<close> for the return of 0 at line 212.  The two jumps to \<^verbatim>\<open>skip_record\<close> differ in
  \<^verbatim>\<open>end\<close>, which line 268 moves to the end of the record.
\<close>

function redo ::
  "radius_h \<Rightarrow> int \<Rightarrow> proto_detail_file_t \<Rightarrow> byte list \<Rightarrow> nat \<Rightarrow> nat \<Rightarrow> nat \<Rightarrow>
     error + mod_read_out" where
  "redo h now inst buf leftover partial endp =
     (let partial = (if leftover > 0 then partial - 1 else partial);
          next = find_next buf partial endp;
          found = (case next of
                     Some n \<Rightarrow> Some (n, endp - n)
                   | None \<Rightarrow> if \<not> eof inst then None else Some (endp, 0))
      in case found of
           None \<Rightarrow>
             Inr \<lparr>r_ret = 0, r_inst = inst, r_buffer = buf, r_leftover = endp,
                  r_packet_ctx = None, r_priority = None\<rparr>
         | Some (packet_len, leftover) \<Rightarrow>
             (if packet_len > max_packet_size inst then
                (case next of
                   Some n \<Rightarrow> redo h now inst (memmove_front buf n (endp - n)) 0 0 (endp - n)
                 | None \<Rightarrow>
                     if leftover \<noteq> 0 then Inl Assert_failed
                     else at_done inst buf leftover packet_len None None)
              else
                (let track = \<lparr>timestamp = now, done_offset = 0\<rparr>;
                     endp = packet_len
                 in (case find_tags buf 0 endp (header_offset inst) (done_offset track) of
                       Skip_record \<Rightarrow>
                         (case next of
                            Some n \<Rightarrow>
                              redo h now inst (memmove_front buf n (endp - n)) 0 0 (endp - n)
                          | None \<Rightarrow>
                              if leftover \<noteq> 0 then Inl Assert_failed
                              else at_done inst buf leftover packet_len None None)
                     | Tracked d \<Rightarrow>
                         accept h inst buf leftover packet_len (track\<lparr>done_offset := d\<rparr>)))))"
  by pat_completeness auto
termination
  apply (relation "measure (\<lambda>(h, now, inst, buf, leftover, partial, endp). endp)")
   apply simp
  apply (auto dest!: find_next_bounds split: option.splits if_splits)
  done

text \<open>
  Lines 104 to 322.  \<open>now\<close> is the value of \<^verbatim>\<open>fr_time()\<close>; \<^verbatim>\<open>partial\<close> starts at
  \<^verbatim>\<open>buffer + *leftover\<close>.
\<close>

definition mod_read ::
  "radius_h \<Rightarrow> int \<Rightarrow> proto_detail_file_t \<Rightarrow> byte list \<Rightarrow> nat \<Rightarrow> error + mod_read_out" where
  "mod_read h now inst buffer leftover =
     (if \<not> (leftover < length buffer) then Inl Assert_failed
      else if closing inst then
        let (off, f) = lseek (fd inst) (file_size inst) SEEK_SET
        in Inr \<lparr>r_ret = 0, r_inst = inst\<lparr>read_offset := off, fd := f\<rparr>, r_buffer = buffer,
                r_leftover = leftover, r_packet_ctx = None, r_priority = None\<rparr>
      else
        case fill inst buffer leftover of
          Inl e \<Rightarrow> Inl e
        | Inr (inst, buf, endp) \<Rightarrow> redo h now inst buf leftover leftover endp)"

subsection \<open>Sample inputs\<close>

text \<open>
  One set of header values: the packet codes of RFC 2865, 2866 and 5176, a table of 53
  entries and four distinct priority levels.
\<close>

definition sample_h :: radius_h where
  "sample_h =
     \<lparr>FR_MAX_PACKET_CODE = 53, FR_CODE_ACCESS_REQUEST = 1, FR_CODE_ACCOUNTING_REQUEST = 4,
      FR_CODE_COA_REQUEST = 43, FR_CODE_DISCONNECT_REQUEST = 40, FR_CODE_STATUS_SERVER = 12,
      PRIORITY_NOW = 65536, PRIORITY_HIGH = 32768, PRIORITY_NORMAL = 16384,
      PRIORITY_LOW = 8192\<rparr>"

text \<open>
  The offset limit of the sample file system: 16 TiB less one block of 4 KiB.
\<close>

definition sample_maxbytes :: int where
  "sample_maxbytes = 17592186040320"

text \<open>
  The instance as \<^verbatim>\<open>mod_open\<close> leaves it on a work file with the given contents, for a
  maximum record size \<open>m\<close>: the cursor at 0 and \<^verbatim>\<open>file_size\<close> the length of the file.
\<close>

definition opened :: "byte list \<Rightarrow> nat \<Rightarrow> proto_detail_file_t" where
  "opened bytes m =
     \<lparr>fd = \<lparr>fd_valid = True, contents = bytes, cursor = 0, maxbytes = sample_maxbytes\<rparr>,
      eof = False, closing = False, outstanding = 0, file_size = int (length bytes),
      header_offset = 0, read_offset = 0, max_packet_size = m\<rparr>"

section \<open>Lemmas on the two searches and on redo\<close>

text \<open>The three recursive equations are unfolded by hand, one step at a time.\<close>

declare find_next.simps [simp del] find_tags.simps [simp del] redo.simps [simp del]

text \<open>The bytes of a string literal, one character at a time.\<close>

lemma c_str_Cons: "c_str (c # s) = of_nat (of_char c) # c_str s"
  by (simp add: c_str_def)

text \<open>
  Both comparisons of the tag search start at a byte that has just been tested to be a
  newline, and both strings start with a tab: neither can succeed.
\<close>

lemma memcmp_tab:
  assumes "buf ! p = 10"
  shows "\<not> memcmp_eq buf p (c_str (CHR 0x09 # s)) (Suc n)"
proof (cases "p < length buf")
  case True
  then have "drop p buf = buf ! p # drop (Suc p) buf"
    by (simp add: Cons_nth_drop_Suc)
  with assms show ?thesis
    by (simp add: memcmp_eq_def c_str_Cons)
next
  case False
  then show ?thesis
    by (simp add: memcmp_eq_def c_str_Cons)
qed

text \<open>So the tag search never jumps to \<^verbatim>\<open>skip_record\<close> and never moves \<^verbatim>\<open>done_offset\<close>.\<close>

lemma find_tags_Tracked: "find_tags buf p endp hdr d = Tracked d"
proof (induction buf p endp hdr d rule: find_tags.induct)
  case (1 buf p endp hdr d)
  have five: "\<not> memcmp_eq buf p (c_str (CHR 0x09 # ''Done'')) 5" if "buf ! p = 10"
    using memcmp_tab [OF that, of "''Done''" 4] by simp
  have ten: "\<not> memcmp_eq buf p (c_str (CHR 0x09 # ''Timestamp'')) 10" if "buf ! p = 10"
    using memcmp_tab [OF that, of "''Timestamp''" 9] by simp
  show ?case
    using "1.IH" five ten by (subst find_tags.simps) auto
qed

text \<open>What is left of \<^verbatim>\<open>redo\<close> once the tag search is known to do nothing.\<close>

lemma redo_unfold:
  "redo h now inst buf leftover partial endp =
     (case find_next buf (if leftover > 0 then partial - 1 else partial) endp of
        Some n \<Rightarrow>
          if n > max_packet_size inst
          then redo h now inst (memmove_front buf n (endp - n)) 0 0 (endp - n)
          else accept h inst buf (endp - n) n \<lparr>timestamp = now, done_offset = 0\<rparr>
      | None \<Rightarrow>
          if \<not> eof inst
          then Inr \<lparr>r_ret = 0, r_inst = inst, r_buffer = buf, r_leftover = endp,
                    r_packet_ctx = None, r_priority = None\<rparr>
          else if endp > max_packet_size inst then at_done inst buf 0 endp None None
          else accept h inst buf 0 endp \<lparr>timestamp = now, done_offset = 0\<rparr>)"
  by (subst redo.simps) (simp add: Let_def find_tags_Tracked split: option.splits)

text \<open>The designated initialisers do not change the size of the table.\<close>

lemma length_priorities: "length (priorities h) = FR_MAX_PACKET_CODE h"
  by (simp add: priorities_def)

text \<open>What a return from the label \<^verbatim>\<open>done\<close> leaves behind, field by field.\<close>

lemma at_done_Inr:
  assumes "at_done inst buf leftover packet_len ctx prio = Inr out"
  shows "r_ret out = int packet_len \<and> r_buffer out = buf \<and> r_leftover out = leftover \<and>
    r_packet_ctx out = ctx \<and> r_priority out = prio \<and>
    eof (r_inst out) = eof inst \<and>
    outstanding (r_inst out) = outstanding inst + 1 \<and>
    header_offset (r_inst out) = header_offset inst \<and>
    (eof inst \<longrightarrow>
       (read_offset (r_inst out), fd (r_inst out)) = lseek (fd inst) (read_offset inst - 1) SEEK_SET \<and>
       closing (r_inst out) = (leftover = 0)) \<and>
    (\<not> eof inst \<longrightarrow> read_offset (r_inst out) = read_offset inst \<and> fd (r_inst out) = fd inst \<and>
       closing (r_inst out) = closing inst)"
  using assms by (auto simp: at_done_def Let_def split: if_splits prod.splits)

text \<open>The same for a record that is handed out: the table was read inside its bounds.\<close>

lemma accept_Inr:
  assumes "accept h inst buf leftover packet_len track = Inr out"
  shows "r_ret out = int packet_len \<and> r_buffer out = buf \<and> r_leftover out = leftover \<and>
    r_packet_ctx out = Some track \<and>
    unat (buf ! 0) < FR_MAX_PACKET_CODE h \<and>
    r_priority out = Some (priorities h ! unat (buf ! 0)) \<and>
    eof (r_inst out) = eof inst \<and>
    outstanding (r_inst out) = outstanding inst + 1 \<and>
    header_offset (r_inst out) = header_offset inst + int packet_len \<and>
    (eof inst \<longrightarrow>
       (read_offset (r_inst out), fd (r_inst out)) = lseek (fd inst) (read_offset inst - 1) SEEK_SET \<and>
       closing (r_inst out) = (leftover = 0)) \<and>
    (\<not> eof inst \<longrightarrow> read_offset (r_inst out) = read_offset inst \<and> fd (r_inst out) = fd inst \<and>
       closing (r_inst out) = closing inst)"
  using assms
  by (auto simp: accept_def Let_def length_priorities split: if_splits dest!: at_done_Inr)

text \<open>
  A call that hands out a tracking entry: the entry, the priority, the counters and the
  step back at EOF.  The skipped records leave no trace in \<^verbatim>\<open>header_offset\<close>.
\<close>

lemma redo_accepted:
  assumes "redo h now inst buf leftover partial endp = Inr out"
    and "r_packet_ctx out = Some track"
  shows "track = \<lparr>timestamp = now, done_offset = 0\<rparr> \<and>
    unat (r_buffer out ! 0) < FR_MAX_PACKET_CODE h \<and>
    r_priority out = Some (priorities h ! unat (r_buffer out ! 0)) \<and>
    eof (r_inst out) = eof inst \<and>
    outstanding (r_inst out) = outstanding inst + 1 \<and>
    header_offset (r_inst out) = header_offset inst + r_ret out \<and>
    (eof inst \<longrightarrow>
       (read_offset (r_inst out), fd (r_inst out)) = lseek (fd inst) (read_offset inst - 1) SEEK_SET \<and>
       closing (r_inst out) = (r_leftover out = 0))"
  using assms
proof (induction h now inst buf leftover partial endp rule: redo.induct)
  case (1 h now inst buf leftover partial endp)
  let ?p = "if leftover > 0 then partial - 1 else partial"
  show ?case
  proof (cases "find_next buf ?p endp")
    case None
    with "1.prems" show ?thesis
      by (subst (asm) redo_unfold)
        (auto split: if_splits dest!: at_done_Inr accept_Inr)
  next
    case (Some n)
    show ?thesis
    proof (cases "n > max_packet_size inst")
      case True
      with Some "1.prems" have
        "redo h now inst (memmove_front buf n (endp - n)) 0 0 (endp - n) = Inr out"
        by (subst (asm) redo_unfold) simp
      with "1.IH"(1) [OF refl refl refl _ _ True Some] Some "1.prems"(2) show ?thesis
        by simp
    next
      case False
      with Some "1.prems" show ?thesis
        by (subst (asm) redo_unfold) (auto dest!: accept_Inr)
    qed
  qed
qed

section \<open>Properties of mod\_read\<close>


text \<open>A call that hands out a tracking entry went through \<^verbatim>\<open>fill\<close> and \<^verbatim>\<open>redo\<close>.\<close>

lemma mod_read_accepted:
  assumes "mod_read h now inst buffer leftover = Inr out"
    and "r_packet_ctx out = Some track"
  shows "\<exists>inst1 buf1 e. fill inst buffer leftover = Inr (inst1, buf1, e) \<and>
    redo h now inst1 buf1 leftover leftover e = Inr out"
  using assms
  by (auto simp: mod_read_def Let_def split: if_splits sum.splits prod.splits)


text \<open>Every tracking entry that \<^verbatim>\<open>mod_read\<close> hands out has \<^verbatim>\<open>done_offset\<close> 0.\<close>

lemma mod_read_done_offset_zero:
  assumes "mod_read h now inst buffer leftover = Inr out"
    and "r_packet_ctx out = Some track"
  shows "done_offset track = 0"
proof -
  from mod_read_accepted [OF assms] obtain inst1 buf1 e where
    "redo h now inst1 buf1 leftover leftover e = Inr out"
    by blast
  from redo_accepted [OF this assms(2)] show ?thesis
    by simp
qed

text \<open>
  Claim C1 fails on the code.  On a work file of the eight bytes \<^verbatim>\<open>abcdefgh\<close>, with a
  maximum record size of 4, the first call reads all of the file, is at EOF with no
  delimiter, finds the record of 8 bytes too large, and reaches \<^verbatim>\<open>done\<close> from
  \<^verbatim>\<open>skip_record\<close>: it returns 8, the length of the oversize record, counts it as
  outstanding and assigns no tracking entry.  On a file with an oversize record of 10
  bytes and then the record \<^verbatim>\<open>1\n\n\<close>, the call skips the first and returns the second,
  and \<^verbatim>\<open>header_offset\<close> ends at 3, not at 13: the skip did not advance it.
\<close>

theorem oversize_record_returned_at_eof:
  "mod_read sample_h 7 (opened (c_str ''abcdefgh'') 4) (replicate 16 0) 0 =
    Inr \<lparr>r_ret = 8,
         r_inst = (opened (c_str ''abcdefgh'') 4)
           \<lparr>fd := \<lparr>fd_valid = True, contents = c_str ''abcdefgh'', cursor = 7, maxbytes = sample_maxbytes\<rparr>,
             eof := True, closing := True, read_offset := 7, outstanding := 1\<rparr>,
         r_buffer = c_str ''abcdefgh'' @ replicate 8 0, r_leftover = 0,
         r_packet_ctx = None, r_priority = None\<rparr> \<and>
   mod_read sample_h 7 (opened (c_str ''aaaaaaaa\<newline>\<newline>1\<newline>\<newline>'') 4) (replicate 16 0) 0 =
    Inr \<lparr>r_ret = 3,
         r_inst = (opened (c_str ''aaaaaaaa\<newline>\<newline>1\<newline>\<newline>'') 4)
           \<lparr>fd := \<lparr>fd_valid = True, contents = c_str ''aaaaaaaa\<newline>\<newline>1\<newline>\<newline>'', cursor = 12, maxbytes = sample_maxbytes\<rparr>,
             eof := True, closing := True, read_offset := 12, outstanding := 1,
             header_offset := 3\<rparr>,
         r_buffer = c_str ''1\<newline>\<newline>aaaaa\<newline>\<newline>1\<newline>\<newline>'' @ replicate 3 0, r_leftover = 0,
         r_packet_ctx = Some \<lparr>timestamp = 7, done_offset = 0\<rparr>, r_priority = Some 0\<rparr>"
  by code_simp

text \<open>
  Claim C2 fails on the code.  A record with the line \<^verbatim>\<open>\tDone\<close> is not skipped: the
  call returns its 9 bytes with a tracking entry and counts it as outstanding.  Line 274
  compares the five bytes from the newline on with \<^verbatim>\<open>"\tDone"\<close>, which starts with a tab.
\<close>

theorem done_record_is_returned:
  "mod_read sample_h 7 (opened (c_str (''1\<newline>'' @ CHR 0x09 # ''Done\<newline>\<newline>'')) 100) (replicate 16 0) 0 =
    Inr \<lparr>r_ret = 9,
         r_inst = (opened (c_str (''1\<newline>'' @ CHR 0x09 # ''Done\<newline>\<newline>'')) 100)
           \<lparr>fd := \<lparr>fd_valid = True, contents = c_str (''1\<newline>'' @ CHR 0x09 # ''Done\<newline>\<newline>''),
                    cursor = 8, maxbytes = sample_maxbytes\<rparr>,
             eof := True, closing := True, read_offset := 8, outstanding := 1,
             header_offset := 9\<rparr>,
         r_buffer = c_str (''1\<newline>'' @ CHR 0x09 # ''Done\<newline>\<newline>'') @ replicate 7 0,
         r_leftover = 0,
         r_packet_ctx = Some \<lparr>timestamp = 7, done_offset = 0\<rparr>, r_priority = Some 0\<rparr>"
  by code_simp

text \<open>
  Claim C3 fails on the code.  A record with the line \<^verbatim>\<open>\tTimestamp = 5\<close> is handed out
  with \<^verbatim>\<open>done_offset\<close> 0, not with the offset behind the tag: line 279 compares the ten
  bytes from the newline on with \<^verbatim>\<open>"\tTimestamp"\<close>.
\<close>

theorem timestamp_tag_leaves_done_offset_zero:
  "mod_read sample_h 7
     (opened (c_str (''1\<newline>'' @ CHR 0x09 # ''Timestamp = 5\<newline>\<newline>'')) 100) (replicate 32 0) 0 =
    Inr \<lparr>r_ret = 18,
         r_inst = (opened (c_str (''1\<newline>'' @ CHR 0x09 # ''Timestamp = 5\<newline>\<newline>'')) 100)
           \<lparr>fd := \<lparr>fd_valid = True,
                    contents = c_str (''1\<newline>'' @ CHR 0x09 # ''Timestamp = 5\<newline>\<newline>''),
                    cursor = 17, maxbytes = sample_maxbytes\<rparr>,
             eof := True, closing := True, read_offset := 17, outstanding := 1,
             header_offset := 18\<rparr>,
         r_buffer = c_str (''1\<newline>'' @ CHR 0x09 # ''Timestamp = 5\<newline>\<newline>'') @ replicate 14 0,
         r_leftover = 0,
         r_packet_ctx = Some \<lparr>timestamp = 7, done_offset = 0\<rparr>, r_priority = Some 0\<rparr>"
  by code_simp

text \<open>
  Claim C4 fails on the code.  On a work file of ten bytes without a delimiter and a
  maximum record size of 4, the first call leaves \<^verbatim>\<open>outstanding\<close> at 1 although it has
  handed out no tracking entry, and none has been released.
\<close>

theorem outstanding_counts_dropped_record:
  "outstanding (opened (c_str ''0123456789'') 4) = 0 \<and>
   mod_read sample_h 7 (opened (c_str ''0123456789'') 4) (replicate 16 0) 0 =
    Inr \<lparr>r_ret = 10,
         r_inst = (opened (c_str ''0123456789'') 4)
           \<lparr>fd := \<lparr>fd_valid = True, contents = c_str ''0123456789'', cursor = 9, maxbytes = sample_maxbytes\<rparr>,
             eof := True, closing := True, read_offset := 9, outstanding := 1\<rparr>,
         r_buffer = c_str ''0123456789'' @ replicate 6 0, r_leftover = 0,
         r_packet_ctx = None, r_priority = None\<rparr>"
  by code_simp











text \<open>
  Claim C9.  The table has \<^verbatim>\<open>FR_MAX_PACKET_CODE\<close> entries.  A call that hands out a
  tracking entry and returns has indexed the table with the first byte of the buffer,
  and that byte was below \<^verbatim>\<open>FR_MAX_PACKET_CODE\<close>.  For a first byte that is not, the
  record of that byte and a delimiter makes the call read outside the table; when
  \<^verbatim>\<open>FR_MAX_PACKET_CODE\<close> is at most 255 there is such a byte.
\<close>

theorem priorities_lookup_bounds:
  "(mod_read h now inst buffer leftover = Inr out \<and> r_packet_ctx out = Some track \<longrightarrow>
      length (priorities h) = FR_MAX_PACKET_CODE h \<and>
      unat (r_buffer out ! 0) < FR_MAX_PACKET_CODE h \<and>
      r_priority out = Some (priorities h ! unat (r_buffer out ! 0))) \<and>
   (FR_MAX_PACKET_CODE h \<le> unat b \<longrightarrow>
      mod_read h now (opened [b, 10, 10] 100) (replicate 16 0) 0 = Inl Out_of_bounds) \<and>
   (FR_MAX_PACKET_CODE h \<le> 255 \<longrightarrow>
      (\<exists>c. mod_read h now (opened [c, 10, 10] 100) (replicate 16 0) 0 = Inl Out_of_bounds))"
proof -
  have a: "length (priorities h) = FR_MAX_PACKET_CODE h \<and>
      unat (r_buffer out ! 0) < FR_MAX_PACKET_CODE h \<and>
      r_priority out = Some (priorities h ! unat (r_buffer out ! 0))"
    if "mod_read h now inst buffer leftover = Inr out" "r_packet_ctx out = Some track"
  proof -
    from mod_read_accepted [OF that] obtain inst1 buf1 e where
      "redo h now inst1 buf1 leftover leftover e = Inr out"
      by blast
    from redo_accepted [OF this that(2)] show ?thesis
      by (simp add: length_priorities)
  qed
  have b: "mod_read h now (opened [c, 10, 10] 100) (replicate 16 0) 0 = Inl Out_of_bounds"
    if "FR_MAX_PACKET_CODE h \<le> unat c" for c
  proof -
    define I where "I = opened [c, 10, 10] 100"
    define I1 where
      "I1 = I\<lparr>fd := \<lparr>fd_valid = True, contents = [c, 10, 10], cursor = 3, maxbytes = sample_maxbytes\<rparr>,
               read_offset := 3, eof := True\<rparr>"
    define B where "B = [c, 10, 10] @ replicate 13 (0 :: byte)"
    have f: "fill I (replicate 16 0) 0 = Inr (I1, B, 3)"
      by (simp add: I_def I1_def B_def fill_def opened_def read_fd_def lseek_def Let_def
          sample_maxbytes_def)
    have n: "find_next B 0 3 = Some (if c = 10 then 2 else 3)"
      by (simp add: B_def find_next.simps)
    have I: "\<not> closing I"
      by (simp add: I_def opened_def)
    have I1: "eof I1" "max_packet_size I1 = 100"
      by (simp_all add: I1_def I_def opened_def)
    have B: "B ! 0 = c"
      by (simp add: B_def)
    have "mod_read h now I (replicate 16 0) 0 = redo h now I1 B 0 0 3"
      by (simp add: mod_read_def f I)
    also have "\<dots> = Inl Out_of_bounds"
      using that by (subst redo_unfold) (simp add: n I1 B accept_def length_priorities)
    finally show ?thesis
      by (simp add: I_def)
  qed
  have "\<exists>c. mod_read h now (opened [c, 10, 10] 100) (replicate 16 0) 0 = Inl Out_of_bounds"
    if "FR_MAX_PACKET_CODE h \<le> 255"
    using b [of 255] that by auto
  with a b show ?thesis
    by blast
qed

text \<open>
  Claim C9 for the sample header: the record \<^verbatim>\<open>1b\n\n\<close> indexes entry 49 of 53, and a
  record that starts with \<^verbatim>\<open>M\<close>, byte 77, is outside the table.
\<close>

theorem priorities_lookup_bounds_witness:
  "(case mod_read sample_h 7 (opened (c_str ''1b\<newline>\<newline>'') 100) (replicate 16 0) 0 of
      Inl e \<Rightarrow> False
    | Inr out \<Rightarrow>
        r_packet_ctx out = Some \<lparr>timestamp = 7, done_offset = 0\<rparr> \<and>
        r_buffer out ! 0 = 49 \<and> length (priorities sample_h) = 53 \<and>
        r_priority out = Some (priorities sample_h ! 49)) \<and>
   FR_MAX_PACKET_CODE sample_h \<le> unat (77 :: byte) \<and>
   mod_read sample_h 7 (opened [77, 10, 10] 100) (replicate 16 0) 0 = Inl Out_of_bounds \<and>
   FR_MAX_PACKET_CODE sample_h \<le> 255"
proof -
  let ?inst = "opened (c_str ''1b\<newline>\<newline>'') 100"
  let ?out = "\<lparr>r_ret = 4,
      r_inst = ?inst\<lparr>fd := \<lparr>fd_valid = True, contents = c_str ''1b\<newline>\<newline>'', cursor = 3, maxbytes = sample_maxbytes\<rparr>,
                    eof := True, closing := True, read_offset := 3, outstanding := 1,
                    header_offset := 4\<rparr>,
      r_buffer = c_str ''1b\<newline>\<newline>'' @ replicate 12 0, r_leftover = 0,
      r_packet_ctx = Some \<lparr>timestamp = 7, done_offset = 0\<rparr>, r_priority = Some 0\<rparr>"
  have ev: "mod_read sample_h 7 ?inst (replicate 16 0) 0 = Inr ?out"
    by code_simp
  have m: "FR_MAX_PACKET_CODE sample_h \<le> unat (77 :: byte)" "FR_MAX_PACKET_CODE sample_h \<le> 255"
    by (simp_all add: sample_h_def)
  from priorities_lookup_bounds [of sample_h 7 ?inst "replicate 16 0" 0 ?out
      "\<lparr>timestamp = 7, done_offset = 0\<rparr>" 77] ev m
  show ?thesis
    by (simp add: c_str_def sample_h_def)
qed

text \<open>
  Claim C10.  A buffer of four bytes is filled by the first four of the eight bytes
  \<^verbatim>\<open>abcdefgh\<close>; the stream is not at EOF and there is no delimiter, so the call returns 0
  and stores 4 in \<^verbatim>\<open>*leftover\<close>, the length of the buffer.  The next call, on what this
  one left, fails the assertion of line 113.
\<close>

theorem leftover_reaches_buffer_len:
  "mod_read sample_h 7 (opened (c_str ''abcdefgh'') 100) (replicate 4 0) 0 =
    Inr \<lparr>r_ret = 0,
         r_inst = (opened (c_str ''abcdefgh'') 100)
           \<lparr>fd := \<lparr>fd_valid = True, contents = c_str ''abcdefgh'', cursor = 4, maxbytes = sample_maxbytes\<rparr>,
             read_offset := 4\<rparr>,
         r_buffer = c_str ''abcd'', r_leftover = 4,
         r_packet_ctx = None, r_priority = None\<rparr> \<and>
   length (c_str ''abcd'') = 4 \<and>
   mod_read sample_h 7
     ((opened (c_str ''abcdefgh'') 100)
        \<lparr>fd := \<lparr>fd_valid = True, contents = c_str ''abcdefgh'', cursor = 4, maxbytes = sample_maxbytes\<rparr>, read_offset := 4\<rparr>)
     (c_str ''abcd'') 4 = Inl Assert_failed"
  by code_simp

section \<open>Properties of mod\_write\<close>












text \<open>
  Claim C8, as the code has it.  With an outstanding record and a buffer of at least one
  byte \<^verbatim>\<open>mod_write\<close> returns \<^verbatim>\<open>buffer_len\<close>, whatever the two seeks and the write return:
  their results are discarded.  The only return of -1 is for an empty buffer.
\<close>

theorem mod_write_returns_buffer_len:
  "(0 < outstanding inst \<and> 1 \<le> length buffer \<longrightarrow>
      (\<exists>out. mod_write inst track buffer = Inr out \<and> w_ret out = int (length buffer))) \<and>
   (length buffer < 1 \<longrightarrow> mod_write inst track buffer = Inl Fatal)"
  by (simp add: mod_write_def Let_def)

text \<open>Claim C8, as the code has it, at a buffer of one byte and at the empty buffer.\<close>

theorem mod_write_returns_buffer_len_witness:
  "(\<exists>out. mod_write ((opened (c_str ''abcdefgh'') 100)\<lparr>outstanding := 1\<rparr>)
            \<lparr>timestamp = 7, done_offset = 2\<rparr> [2] = Inr out \<and> w_ret out = 1) \<and>
   mod_write ((opened (c_str ''abcdefgh'') 100)\<lparr>outstanding := 1\<rparr>)
            \<lparr>timestamp = 7, done_offset = 2\<rparr> [] = Inl Fatal"
  using
    mod_write_returns_buffer_len [of "(opened (c_str ''abcdefgh'') 100)\<lparr>outstanding := 1\<rparr>"
      "[2]" "\<lparr>timestamp = 7, done_offset = 2\<rparr>"]
    mod_write_returns_buffer_len [of "(opened (c_str ''abcdefgh'') 100)\<lparr>outstanding := 1\<rparr>"
      "[]" "\<lparr>timestamp = 7, done_offset = 2\<rparr>"]
  by (simp add: opened_def)

text \<open>
  Claim C8 as stated fails.  On a descriptor that is no longer valid both seeks and the
  write fail with -1, and \<^verbatim>\<open>mod_write\<close> still returns \<^verbatim>\<open>buffer_len\<close>, here 1, and no error.
\<close>

theorem mod_write_failed_io_counterexample:
  "lseek \<lparr>fd_valid = False, contents = c_str ''abcdefgh'', cursor = 4, maxbytes = sample_maxbytes\<rparr> 2 SEEK_SET =
     (- 1, \<lparr>fd_valid = False, contents = c_str ''abcdefgh'', cursor = 4, maxbytes = sample_maxbytes\<rparr>) \<and>
   write_fd \<lparr>fd_valid = False, contents = c_str ''abcdefgh'', cursor = 4, maxbytes = sample_maxbytes\<rparr> (c_str ''Done'') =
     (- 1, \<lparr>fd_valid = False, contents = c_str ''abcdefgh'', cursor = 4, maxbytes = sample_maxbytes\<rparr>) \<and>
   lseek \<lparr>fd_valid = False, contents = c_str ''abcdefgh'', cursor = 4, maxbytes = sample_maxbytes\<rparr> 4 SEEK_SET =
     (- 1, \<lparr>fd_valid = False, contents = c_str ''abcdefgh'', cursor = 4, maxbytes = sample_maxbytes\<rparr>) \<and>
   mod_write
     ((opened (c_str ''abcdefgh'') 100)
        \<lparr>fd := \<lparr>fd_valid = False, contents = c_str ''abcdefgh'', cursor = 4, maxbytes = sample_maxbytes\<rparr>,
          outstanding := 1, read_offset := 4\<rparr>)
     \<lparr>timestamp = 7, done_offset = 2\<rparr> [2] =
   Inr \<lparr>w_ret = 1,
        w_inst = (opened (c_str ''abcdefgh'') 100)
          \<lparr>fd := \<lparr>fd_valid = False, contents = c_str ''abcdefgh'', cursor = 4, maxbytes = sample_maxbytes\<rparr>,
            outstanding := 0, read_offset := 4\<rparr>\<rparr>"
  by code_simp

end
